theory Spec2Isabelle
  imports Main "HOL-Library.Word" "HOL-Library.Sublist"
begin

section \<open>The example program of \<^verbatim>\<open>repo_parse/parser/example/example.go\<close>\<close>

text \<open>
  The file is one Go package \<^verbatim>\<open>main\<close>. Its functions are embedded as HOL functions:
  a struct is a record, a pointer is either nil or a reference into a store, a captured
  variable of a closure is a cell of a heap, and a run-time panic is the left summand
  of a sum type.
\<close>

subsection \<open>Data\<close>

text \<open>Go's \<^verbatim>\<open>int\<close> on a 64-bit target: two's complement, \<open>+\<close> wraps around.\<close>

type_synonym go_int = "64 word"

text \<open>
  Lines 14 to 17: the package-level variables. (The constant \<^verbatim>\<open>Pi\<close> of line 11 is a
  floating-point constant that nothing in the file uses.)
\<close>

definition name :: string where
  "name = ''Go''"

definition age :: go_int where
  "age = 10"

text \<open>Lines 23 to 25.\<close>

record Address =
  City :: string
  State :: string

text \<open>
  Lines 28 to 32. The embedded struct is a field that carries the name of its type.
\<close>

record Person =
  Name :: string
  Age :: go_int
  Address :: Address

text \<open>A pointer value: nil, or the address of a variable.\<close>

datatype ptr = Nil | Ref nat

text \<open>
  The run-time panics: the dereference of a nil pointer, which \<^verbatim>\<open>setName\<close> can raise, and
  the negative counter of a \<^verbatim>\<open>sync.WaitGroup\<close>, which \<^verbatim>\<open>Add\<close> and \<^verbatim>\<open>Done\<close> raise.
\<close>

datatype error = Nil_pointer_dereference | Negative_WaitGroup_counter

text \<open>The variables of type \<^verbatim>\<open>Person\<close> that pointers refer to, by address.\<close>

type_synonym person_store = "nat \<Rightarrow> Person"

subsection \<open>Functions and methods\<close>

text \<open>Lines 46 to 48.\<close>

definition greet :: "string \<Rightarrow> string" where
  "greet n = ''Hello, '' @ n"

text \<open>Lines 50 to 52: both parameters are pointers; neither is dereferenced.\<close>

definition Haha :: "ptr \<Rightarrow> ptr \<Rightarrow> ptr" where
  "Haha n niu = n"

text \<open>Lines 55 to 57.\<close>

definition swap :: "go_int \<Rightarrow> go_int \<Rightarrow> go_int \<times> go_int" where
  "swap x y = (y, x)"

text \<open>Lines 60 to 62: the method \<^verbatim>\<open>greet\<close> with a value receiver.\<close>

definition Person_greet :: "Person \<Rightarrow> string" where
  "Person_greet p = ''Hello, '' @ Name p"

text \<open>
  Lines 65 to 67: the method \<^verbatim>\<open>setName\<close> with a pointer receiver. The assignment
  \<^verbatim>\<open>p.Name = name\<close> dereferences the receiver, which panics when it is nil.
\<close>

fun setName :: "ptr \<Rightarrow> string \<Rightarrow> person_store \<Rightarrow> error + person_store" where
  "setName Nil n ps = Inl Nil_pointer_dereference"
| "setName (Ref a) n ps = Inr (ps(a := (ps a)\<lparr>Name := n\<rparr>))"

subsection \<open>Closures\<close>

text \<open>
  Lines 70 to 76. Each call of \<^verbatim>\<open>adder\<close> declares a new variable \<^verbatim>\<open>sum\<close>, which the
  returned function literal captures by reference. The heap holds these variables;
  a closure value is the address of the variable it captured.
\<close>

record heap =
  cells :: "nat \<Rightarrow> go_int"
  next_cell :: nat

datatype closure = Closure nat

definition adder :: "heap \<Rightarrow> closure \<times> heap" where
  "adder h = (Closure (next_cell h),
              h\<lparr>cells := (cells h)(next_cell h := 0), next_cell := Suc (next_cell h)\<rparr>)"

text \<open>A call of the returned function: \<^verbatim>\<open>sum += x; return sum\<close>.\<close>

fun call :: "closure \<Rightarrow> go_int \<Rightarrow> heap \<Rightarrow> go_int \<times> heap" where
  "call (Closure a) x h =
     (let s = cells h a + x in (s, h\<lparr>cells := (cells h)(a := s)\<rparr>))"

text \<open>Successive calls of one closure, with the values they return.\<close>

fun call_seq :: "closure \<Rightarrow> go_int list \<Rightarrow> heap \<Rightarrow> go_int list \<times> heap" where
  "call_seq c [] h = ([], h)"
| "call_seq c (x # xs) h =
     (case call c x h of (r, h') \<Rightarrow>
        (case call_seq c xs h' of (rs, h'') \<Rightarrow> (r # rs, h'')))"

text \<open>
  Calls of several closures in any order: each entry names the closure that is called
  and its argument, and the run returns each call's closure with its result.
\<close>

fun run_calls :: "(closure \<times> go_int) list \<Rightarrow> heap \<Rightarrow> (closure \<times> go_int) list \<times> heap" where
  "run_calls [] h = ([], h)"
| "run_calls ((c, x) # cs) h =
     (case call c x h of (r, h') \<Rightarrow>
        (case run_calls cs h' of (rs, h'') \<Rightarrow> ((c, r) # rs, h'')))"

text \<open>The arguments passed to, and the results returned by, one closure in such a run.\<close>

definition of_closure :: "closure \<Rightarrow> (closure \<times> go_int) list \<Rightarrow> go_int list" where
  "of_closure c cs = map snd (filter (\<lambda>e. fst e = c) cs)"

text \<open>The running totals of a list of arguments, in Go's \<^verbatim>\<open>int\<close> arithmetic.\<close>

definition cumulative_sums :: "go_int list \<Rightarrow> go_int list" where
  "cumulative_sums xs = map (\<lambda>n. sum_list (take (Suc n) xs)) [0..<length xs]"

text \<open>The address of the variable a closure captured.\<close>

fun cell_of :: "closure \<Rightarrow> nat" where
  "cell_of (Closure a) = a"


subsection \<open>Calls of the functions\<close>

text \<open>
  One call of one of the functions and methods that the file defines, with its arguments,
  and what the call returns. No result type of the file contains \<^verbatim>\<open>error\<close>.
\<close>

datatype invocation =
    Call_greet string
  | Call_Haha ptr ptr
  | Call_swap go_int go_int
  | Call_Person_greet Person
  | Call_setName ptr string
  | Call_adder
  | Call_closure closure go_int

datatype returned =
    Ret_string string
  | Ret_ptr ptr
  | Ret_ints go_int go_int
  | Ret_nothing
  | Ret_func closure
  | Ret_int go_int

type_synonym memory = "person_store \<times> heap"

fun invoke :: "invocation \<Rightarrow> memory \<Rightarrow> error + (returned \<times> memory)" where
  "invoke (Call_greet n) m = Inr (Ret_string (greet n), m)"
| "invoke (Call_Haha n niu) m = Inr (Ret_ptr (Haha n niu), m)"
| "invoke (Call_swap x y) m = (case swap x y of (a, b) \<Rightarrow> Inr (Ret_ints a b, m))"
| "invoke (Call_Person_greet p) m = Inr (Ret_string (Person_greet p), m)"
| "invoke (Call_setName r n) (ps, h) =
     (case setName r n ps of Inl e \<Rightarrow> Inl e | Inr ps' \<Rightarrow> Inr (Ret_nothing, (ps', h)))"
| "invoke Call_adder (ps, h) = (case adder h of (c, h') \<Rightarrow> Inr (Ret_func c, (ps, h')))"
| "invoke (Call_closure c x) (ps, h) =
     (case call c x h of (r, h') \<Rightarrow> Inr (Ret_int r, (ps, h')))"

text \<open>Go's zero value of \<^verbatim>\<open>Person\<close>, and a memory in which every variable holds it.\<close>

definition zero_Person :: Person where
  "zero_Person = \<lparr>Name = [], Age = 0, Address = \<lparr>City = [], State = []\<rparr>\<rparr>"

definition zero_memory :: memory where
  "zero_memory = ((\<lambda>a. zero_Person), \<lparr>cells = (\<lambda>a. 0), next_cell = 0\<rparr>)"

subsection \<open>Method sets and interfaces\<close>

text \<open>
  The method declarations of the file (lines 60 and 65), its interfaces (lines 35 to 43)
  and Go's rule for the method set of a type: the method set of \<^verbatim>\<open>T\<close> holds the methods
  with receiver \<^verbatim>\<open>T\<close>, the one of \<^verbatim>\<open>*T\<close> those with receiver \<^verbatim>\<open>T\<close> or \<^verbatim>\<open>*T\<close>, and an
  embedded field promotes its methods. The structs that the file embeds (\<^verbatim>\<open>Address\<close>)
  embed nothing themselves, so one level of promotion is all there is.
\<close>

datatype go_type = T_string | T_int | T_error | T_bytes

datatype signature = Sig string "go_type list" "go_type list"

datatype receiver = Value_receiver string | Pointer_receiver string

datatype operand_type = Named string | Pointer_to string

fun sig_name :: "signature \<Rightarrow> string" where
  "sig_name (Sig n ps rs) = n"

definition declared_methods :: "(receiver \<times> signature) list" where
  "declared_methods =
     [(Value_receiver ''Person'', Sig ''greet'' [] [T_string]),
      (Pointer_receiver ''Person'', Sig ''setName'' [T_string] [])]"

fun embedded :: "string \<Rightarrow> string list" where
  "embedded T = (if T = ''Person'' then [''Address''] else [])"

definition methods_of :: "receiver \<Rightarrow> signature list" where
  "methods_of r = map snd (filter (\<lambda>d. fst d = r) declared_methods)"

fun method_set :: "operand_type \<Rightarrow> signature list" where
  "method_set (Named T) =
     methods_of (Value_receiver T) @
     concat (map (\<lambda>E. methods_of (Value_receiver E)) (embedded T))"
| "method_set (Pointer_to T) =
     methods_of (Value_receiver T) @ methods_of (Pointer_receiver T) @
     concat (map (\<lambda>E. methods_of (Value_receiver E) @ methods_of (Pointer_receiver E))
       (embedded T))"

text \<open>Lines 35 to 37 and 40 to 43: an interface is the list of the methods it asks for.\<close>

definition Reader :: "signature list" where
  "Reader = [Sig ''Read'' [T_bytes] [T_int, T_error]]"

definition ReadWriter :: "signature list" where
  "ReadWriter = Reader @ [Sig ''Write'' [T_bytes] [T_int, T_error]]"

text \<open>
  The interface \<^verbatim>\<open>Reader\<close> of the standard package \<^verbatim>\<open>io\<close> (imported at line 6), which asks
  for the same method as the \<^verbatim>\<open>Reader\<close> of the file:
  \<^verbatim>\<open>Read(p []byte) (n int, err error)\<close>.
\<close>

definition io_Reader :: "signature list" where
  "io_Reader = [Sig ''Read'' [T_bytes] [T_int, T_error]]"

text \<open>A type implements an interface when its method set holds every method asked for.\<close>

definition implements :: "operand_type \<Rightarrow> signature list \<Rightarrow> bool" where
  "implements T I = list_all (\<lambda>m. List.member (method_set T) m) I"

text \<open>
  The assignments of \<^verbatim>\<open>main\<close> to a variable of interface type, each with the interface
  and the type of the assigned value: line 104 assigns \<^verbatim>\<open>&p\<close>, a \<^verbatim>\<open>*Person\<close>, to \<^verbatim>\<open>r\<close>, an
  \<^verbatim>\<open>io.Reader\<close>. The compiler accepts the file only if each of them is valid.
\<close>

definition main_interface_assignments :: "(signature list \<times> operand_type) list" where
  "main_interface_assignments = [(io_Reader, Pointer_to ''Person'')]"

definition interface_assignments_valid :: bool where
  "interface_assignments_valid =
     list_all (\<lambda>a. implements (snd a) (fst a)) main_interface_assignments"

subsection \<open>The function \<^verbatim>\<open>main\<close>\<close>

text \<open>
  What the program does to the outside: \<^verbatim>\<open>fmt.Println\<close> with its operands, and the kinds
  of effect that the program could have besides.
\<close>

datatype pval = V_string string | V_int go_int

datatype effect = Print "pval list" | File_io string | Network_io string | Persist string

fun is_Print :: "effect \<Rightarrow> bool" where
  "is_Print (Print vs) = True"
| "is_Print (File_io d) = False"
| "is_Print (Network_io d) = False"
| "is_Print (Persist d) = False"

fun only_prints :: "effect list \<Rightarrow> bool" where
  "only_prints [] = True"
| "only_prints (e # es) = (is_Print e \<and> only_prints es)"

text \<open>The address of the local variable \<^verbatim>\<open>p\<close> of \<^verbatim>\<open>main\<close>.\<close>

definition p_addr :: nat where
  "p_addr = 0"

text \<open>
  Lines 81 to 104, which run before the goroutine starts. Lines 99 and 100 declare
  \<^verbatim>\<open>number\<close> with the value 42 and print \<^verbatim>\<open>int(number)\<close>, here the integer 42 (the type
  \<^verbatim>\<open>MyInt\<close> of line 20 has a struct as underlying type, which Go's compiler does not accept
  for these two lines). Lines 103 and 104 assign a pointer and have no effect.
\<close>

definition main_81_104 :: "person_store \<Rightarrow> error + (effect list \<times> person_store)" where
  "main_81_104 ps =
     (let localName = ''Local Go'';
          e1 = Print [V_string (greet name)];
          (a, b) = swap 1 2;
          e2 = Print [V_int a, V_int b];
          ps1 = ps(p_addr := \<lparr>Name = ''Alice'', Age = 30,
                             Address = \<lparr>City = ''Wonderland'', State = ''Fiction''\<rparr>\<rparr>);
          e3 = Print [V_string (Person_greet (ps1 p_addr))]
      in case setName (Ref p_addr) ''Bob'' ps1 of
           Inl err \<Rightarrow> Inl err
         | Inr ps2 \<Rightarrow>
             (let e4 = Print [V_string (Person_greet (ps2 p_addr))];
                  number = 42;
                  e5 = Print [V_int number];
                  r = Ref p_addr
              in Inr ([e1, e2, e3, e4, e5], ps2)))"

text \<open>
  Lines 117 to 119: the loop, from the value \<open>i\<close> of its counter on. The operands of
  \<^verbatim>\<open>Println\<close> are evaluated from left to right. The counter grows while it is below 10.
\<close>

function main_loop :: "go_int \<Rightarrow> closure \<Rightarrow> closure \<Rightarrow> heap \<Rightarrow> effect list \<times> heap" where
  "main_loop i pos neg h =
     (if i <s 10 then
        (case call pos i h of (a, h1) \<Rightarrow>
          (case call neg (- 2 * i) h1 of (b, h2) \<Rightarrow>
            (case main_loop (i + 1) pos neg h2 of (es, h3) \<Rightarrow>
               (Print [V_int a, V_int b] # es, h3))))
      else ([], h))"
  by pat_completeness auto
termination
proof (relation "measure (\<lambda>(i, pos, neg, h). nat (10 - sint i))")
  show "wf (measure (\<lambda>(i, pos, neg, h). nat (10 - sint i)))" by simp
next
  fix i :: go_int and pos neg :: closure and h h2 :: heap
  assume "i <s 10"
  then have lt: "sint i < 10" by (simp add: word_sless_alt)
  have lo: "- (2 ^ 63) \<le> sint i" using sint_ge [of i] by simp
  have "sint (i + 1) = signed_take_bit 63 (sint i + 1)"
    by (simp add: sint_word_ariths)
  also have "\<dots> = sint i + 1"
    using lt lo by (simp add: signed_take_bit_int_eq_self)
  finally show "((i + 1, pos, neg, h2), (i, pos, neg, h))
      \<in> measure (\<lambda>(i, pos, neg, h). nat (10 - sint i))"
    using lt by simp
qed

declare main_loop.simps [simp del]

text \<open>Lines 116 to 119.\<close>

definition main_116_119 :: "heap \<Rightarrow> effect list \<times> heap" where
  "main_116_119 h =
     (case adder h of (pos, h1) \<Rightarrow>
       (case adder h1 of (neg, h2) \<Rightarrow> main_loop 0 pos neg h2))"

text \<open>
  The two flows of control. \<^verbatim>\<open>main\<close> is at the line it executes next; a goroutine is at
  line 111, or at the deferred \<^verbatim>\<open>wg.Done()\<close> that runs when its function returns, or has
  finished. The goroutines are kept in the order in which \<^verbatim>\<open>go\<close> statements started them.
  The history records the operations on the wait-group and the \<^verbatim>\<open>go\<close> statements.
\<close>

datatype main_pc = At_81 | At_108 | At_109 | At_113 | At_116 | Returned

datatype go_pc = At_111 | At_deferred_Done | Finished

datatype sync_event = Ev_Add int | Ev_go | Ev_Done | Ev_Wait_returned

datatype thread = Main_flow | Goroutine nat

record program =
  main_at :: main_pc
  goroutines :: "go_pc list"
  wg :: int
  persons :: person_store
  closures :: heap
  out :: "effect list"
  sync :: "sync_event list"
  panicked :: "error option"

text \<open>
  \<^verbatim>\<open>wg.Add(d)\<close> adds \<open>d\<close> to the counter of the wait-group and panics when the counter
  becomes negative; \<^verbatim>\<open>wg.Done()\<close> is \<^verbatim>\<open>wg.Add(-1)\<close>.
\<close>

definition wg_Add :: "int \<Rightarrow> program \<Rightarrow> program" where
  "wg_Add d s =
     (if wg s + d < 0 then s\<lparr>panicked := Some Negative_WaitGroup_counter\<rparr>
      else s\<lparr>wg := wg s + d\<rparr>)"

text \<open>
  One step of \<^verbatim>\<open>main\<close>; \<open>None\<close> when it cannot move. \<^verbatim>\<open>wg.Wait()\<close> at line 113 returns
  only when the counter is zero, and blocks otherwise.
\<close>

fun main_step :: "program \<Rightarrow> program option" where
  "main_step s =
     (case main_at s of
        At_81 \<Rightarrow>
          (case main_81_104 (persons s) of
             Inl err \<Rightarrow> Some (s\<lparr>panicked := Some err\<rparr>)
           | Inr (es, ps) \<Rightarrow> Some (s\<lparr>main_at := At_108, persons := ps, out := out s @ es\<rparr>))
      | At_108 \<Rightarrow> Some ((wg_Add 1 s)\<lparr>main_at := At_109, sync := sync s @ [Ev_Add 1]\<rparr>)
      | At_109 \<Rightarrow>
          Some (s\<lparr>main_at := At_113, goroutines := goroutines s @ [At_111],
                  sync := sync s @ [Ev_go]\<rparr>)
      | At_113 \<Rightarrow>
          (if wg s = 0 then Some (s\<lparr>main_at := At_116, sync := sync s @ [Ev_Wait_returned]\<rparr>)
           else None)
      | At_116 \<Rightarrow>
          (case main_116_119 (closures s) of
             (es, h) \<Rightarrow> Some (s\<lparr>main_at := Returned, closures := h, out := out s @ es\<rparr>))
      | Returned \<Rightarrow> None)"

text \<open>
  One step of the goroutine number \<open>k\<close>: lines 110 to 112. No goroutine runs once \<^verbatim>\<open>main\<close>
  has returned, since the program exits then.
\<close>

fun goroutine_step :: "nat \<Rightarrow> program \<Rightarrow> program option" where
  "goroutine_step k s =
     (if k < length (goroutines s) \<and> main_at s \<noteq> Returned then
        (case goroutines s ! k of
           At_111 \<Rightarrow>
             Some (s\<lparr>goroutines := (goroutines s)[k := At_deferred_Done],
                     out := out s @ [Print [V_string ''Inside goroutine'']]\<rparr>)
         | At_deferred_Done \<Rightarrow>
             Some ((wg_Add (- 1) s)\<lparr>goroutines := (goroutines s)[k := Finished],
                                     sync := sync s @ [Ev_Done]\<rparr>)
         | Finished \<Rightarrow> None)
      else None)"

text \<open>A panic stops the program.\<close>

fun step :: "thread \<Rightarrow> program \<Rightarrow> program option" where
  "step t s =
     (if panicked s \<noteq> None then None
      else (case t of Main_flow \<Rightarrow> main_step s | Goroutine k \<Rightarrow> goroutine_step k s))"

text \<open>
  A schedule names the flow that moves next, step by step; a flow that cannot move is
  passed over. The schedules are all the ways in which the scheduler can interleave the
  flows.
\<close>

fun exec :: "thread list \<Rightarrow> program \<Rightarrow> program" where
  "exec [] s = s"
| "exec (t # ts) s = (case step t s of None \<Rightarrow> exec ts s | Some s' \<Rightarrow> exec ts s')"

definition initial :: program where
  "initial = \<lparr>main_at = At_81, goroutines = [], wg = 0,
              persons = (\<lambda>a. zero_Person),
              closures = \<lparr>cells = (\<lambda>a. 0), next_cell = 0\<rparr>,
              out = [], sync = [], panicked = None\<rparr>"

definition run :: "thread list \<Rightarrow> program" where
  "run sched = exec sched initial"

text \<open>A schedule that takes the program from any state it can reach to the end of \<^verbatim>\<open>main\<close>.\<close>

definition a_schedule :: "thread list" where
  "a_schedule =
     [Main_flow, Main_flow, Main_flow, Goroutine 0, Goroutine 0, Main_flow, Main_flow]"

text \<open>The history and the output of a complete run.\<close>

definition sync_history :: "sync_event list" where
  "sync_history = [Ev_Add 1, Ev_go, Ev_Done, Ev_Wait_returned]"

definition main_output_81_104 :: "effect list" where
  "main_output_81_104 =
     [Print [V_string ''Hello, Go''], Print [V_int 2, V_int 1],
      Print [V_string ''Hello, Alice''], Print [V_string ''Hello, Bob''],
      Print [V_int 42]]"

definition main_output_116_119 :: "effect list" where
  "main_output_116_119 =
     [Print [V_int 0, V_int 0], Print [V_int 1, V_int (- 2)],
      Print [V_int 3, V_int (- 6)], Print [V_int 6, V_int (- 12)],
      Print [V_int 10, V_int (- 20)], Print [V_int 15, V_int (- 30)],
      Print [V_int 21, V_int (- 42)], Print [V_int 28, V_int (- 56)],
      Print [V_int 36, V_int (- 72)], Print [V_int 45, V_int (- 90)]]"

definition main_output :: "effect list" where
  "main_output =
     main_output_81_104 @ [Print [V_string ''Inside goroutine'']] @ main_output_116_119"

text \<open>
  The states of a run: where \<^verbatim>\<open>main\<close> and the goroutines are, the counter of the
  wait-group, and how much of the history and of the output has been produced.
\<close>

definition in_phase ::
  "program \<Rightarrow> main_pc \<Rightarrow> go_pc list \<Rightarrow> int \<Rightarrow> nat \<Rightarrow> nat \<Rightarrow> bool" where
  "in_phase s pc gs w n m =
     (main_at s = pc \<and> goroutines s = gs \<and> wg s = w \<and> sync s = take n sync_history \<and>
      out s = take m main_output \<and> panicked s = None)"

definition on_path :: "program \<Rightarrow> bool" where
  "on_path s =
     (in_phase s At_81 [] 0 0 0 \<or>
      in_phase s At_108 [] 0 0 5 \<or>
      in_phase s At_109 [] 1 1 5 \<or>
      in_phase s At_113 [At_111] 1 2 5 \<or>
      in_phase s At_113 [At_deferred_Done] 1 2 6 \<or>
      in_phase s At_113 [Finished] 0 3 6 \<or>
      in_phase s At_116 [Finished] 0 4 6 \<or>
      in_phase s Returned [Finished] 0 4 16)"

section \<open>Properties of the functions\<close>

subsection \<open>Helper lemmas\<close>

lemma upt_map_shift: "map f [0..<Suc n] = f 0 # map (\<lambda>k. f (Suc k)) [0..<n]"
  by (simp only: upt_conv_Cons [of 0 "Suc n"] map_Suc_upt [symmetric]) (simp add: comp_def)

text \<open>The results of successive calls depend on the heap only through the captured cell.\<close>

lemma call_seq_results:
  "fst (call_seq (Closure a) xs h) =
     map (\<lambda>n. cells h a + sum_list (take (Suc n) xs)) [0..<length xs]"
proof (induction xs arbitrary: h)
  case Nil
  then show ?case by simp
next
  case (Cons x xs)
  have "fst (call_seq (Closure a) (x # xs) h) =
          (cells h a + x) # fst (call_seq (Closure a) xs (h\<lparr>cells := (cells h)(a := cells h a + x)\<rparr>))"
    by (simp add: Let_def split: prod.splits)
  also have "\<dots> = (cells h a + x) #
          map (\<lambda>n. (cells h a + x) + sum_list (take (Suc n) xs)) [0..<length xs]"
    by (simp add: Cons.IH)
  also have "\<dots> = map (\<lambda>n. cells h a + sum_list (take (Suc n) (x # xs))) [0..<length (x # xs)]"
    by (simp add: upt_map_shift add.assoc del: upt_Suc)
  finally show ?case .
qed

lemma call_other_cell:
  "b \<noteq> a \<Longrightarrow> cells (snd (call (Closure b) x h)) a = cells h a"
  by (simp add: Let_def)

lemma call_own_cell:
  "cells (snd (call (Closure a) x h)) a = cells h a + x"
  by (simp add: Let_def)

text \<open>
  In a run of calls of several closures, the results of one closure are determined by
  its own cell and its own arguments: the calls of the others drop out.
\<close>

lemma run_calls_results:
  "of_closure (Closure a) (fst (run_calls cs h)) =
     map (\<lambda>n. cells h a + sum_list (take (Suc n) (of_closure (Closure a) cs)))
       [0..<length (of_closure (Closure a) cs)]"
proof (induction cs arbitrary: h)
  case Nil
  then show ?case by (simp add: of_closure_def)
next
  case (Cons e cs)
  obtain c x where e: "e = (c, x)" by (cases e)
  obtain b where c: "c = Closure b" by (cases c)
  let ?h' = "snd (call c x h)"
  have step: "fst (run_calls (e # cs) h) = (c, fst (call c x h)) # fst (run_calls cs ?h')"
    by (simp add: e split: prod.splits)
  show ?case
  proof (cases "b = a")
    case True
    have "of_closure (Closure a) (fst (run_calls (e # cs) h)) =
            (cells h a + x) # of_closure (Closure a) (fst (run_calls cs ?h'))"
      by (simp add: step of_closure_def c True Let_def)
    also have "\<dots> = (cells h a + x) #
            map (\<lambda>n. (cells h a + x) + sum_list (take (Suc n) (of_closure (Closure a) cs)))
              [0..<length (of_closure (Closure a) cs)]"
      using call_own_cell [of a x h] by (simp add: Cons.IH c True)
    also have "\<dots> =
            map (\<lambda>n. cells h a + sum_list (take (Suc n) (of_closure (Closure a) (e # cs))))
              [0..<length (of_closure (Closure a) (e # cs))]"
      by (simp add: of_closure_def e c True upt_map_shift add.assoc del: upt_Suc)
    finally show ?thesis .
  next
    case False
    have "of_closure (Closure a) (fst (run_calls (e # cs) h)) =
            of_closure (Closure a) (fst (run_calls cs ?h'))"
      using False by (simp add: step of_closure_def c)
    also have "\<dots> =
            map (\<lambda>n. cells h a + sum_list (take (Suc n) (of_closure (Closure a) cs)))
              [0..<length (of_closure (Closure a) cs)]"
      using call_other_cell [OF False, of x h] by (simp add: Cons.IH c)
    also have "\<dots> =
            map (\<lambda>n. cells h a + sum_list (take (Suc n) (of_closure (Closure a) (e # cs))))
              [0..<length (of_closure (Closure a) (e # cs))]"
      using False by (simp add: of_closure_def e c)
    finally show ?thesis .
  qed
qed

text \<open>
  Go's addition wraps around at 64 bits. Read as signed numbers, a sum of arguments is
  the mathematical sum whenever that sum fits into an \<^verbatim>\<open>int\<close>.
\<close>

lemma sum_list_of_int_sint:
  "sum_list xs = (word_of_int (sum_list (map sint xs)) :: go_int)"
  by (induction xs) simp_all

lemma sint_sum_list_in_range:
  fixes xs :: "go_int list"
  assumes "- (2 ^ 63) \<le> sum_list (map sint xs)" "sum_list (map sint xs) < 2 ^ 63"
  shows "sint (sum_list xs) = sum_list (map sint xs)"
proof -
  have "sint (sum_list xs) = sint (word_of_int (sum_list (map sint xs)) :: go_int)"
    using sum_list_of_int_sint [of xs] by simp
  also have "\<dots> = signed_take_bit 63 (sum_list (map sint xs))"
    by (simp add: sint_sbintrunc')
  also have "\<dots> = sum_list (map sint xs)"
    using assms by (simp add: signed_take_bit_int_eq_self)
  finally show ?thesis .
qed

subsection \<open>The function \<^verbatim>\<open>swap\<close>\<close>

text \<open>
  Claim C1: \<^verbatim>\<open>swap(1, 2)\<close> returns \<^verbatim>\<open>(2, 1)\<close>, and for all arguments the two results
  are the two arguments in reversed order.
\<close>

theorem swap_reverses: "swap 1 2 = (2, 1) \<and> swap x y = (y, x)"
  by (simp add: swap_def)

subsection \<open>The closure of \<^verbatim>\<open>adder\<close>\<close>

text \<open>
  Claim C2: the variable captured by a closure that \<^verbatim>\<open>adder\<close> returns starts at zero;
  called with 0, 1, 2, 3 the closure returns 0, 1, 3, 6; and for every list of arguments
  the n-th call returns the sum of the first n arguments. The sum is the one of Go's
  \<^verbatim>\<open>int\<close>, which wraps around at 64 bits.
\<close>

theorem adder_cumulative_sums:
  "(case adder h of (c, h') \<Rightarrow>
      cells h' (cell_of c) = 0 \<and>
      fst (call_seq c [0, 1, 2, 3] h') = [0, 1, 3, 6] \<and>
      fst (call_seq c xs h') = cumulative_sums xs \<and>
      length (fst (call_seq c xs h')) = length xs)"
  by (simp add: adder_def call_seq_results cumulative_sums_def del: upt_Suc)

text \<open>
  Claim C10: the closures \<^verbatim>\<open>pos\<close> and \<^verbatim>\<open>neg\<close> of two calls of \<^verbatim>\<open>adder\<close> capture different
  variables, and in every interleaving of calls each of them returns what it returns when
  it is called alone with its own arguments: the running totals of those arguments.
\<close>

theorem adder_closures_independent:
  "(case adder h0 of (pos, h1) \<Rightarrow>
     (case adder h1 of (neg, h2) \<Rightarrow>
        pos \<noteq> neg \<and>
        of_closure pos (fst (run_calls cs h2)) = fst (call_seq pos (of_closure pos cs) h2) \<and>
        of_closure neg (fst (run_calls cs h2)) = fst (call_seq neg (of_closure neg cs) h2) \<and>
        of_closure pos (fst (run_calls cs h2)) = cumulative_sums (of_closure pos cs) \<and>
        of_closure neg (fst (run_calls cs h2)) = cumulative_sums (of_closure neg cs)))"
  by (simp add: adder_def call_seq_results run_calls_results cumulative_sums_def del: upt_Suc)

subsection \<open>The methods of \<^verbatim>\<open>Person\<close>\<close>

text \<open>
  Claim C8: for the variable \<open>p\<close> at any address \<open>a\<close> and every string \<open>n\<close>, the call
  \<^verbatim>\<open>p.setName(n)\<close> returns normally, sets \<^verbatim>\<open>p.Name\<close> to \<open>n\<close>, and leaves \<^verbatim>\<open>p.Age\<close>, the
  embedded \<^verbatim>\<open>Address\<close> with its \<^verbatim>\<open>City\<close> and \<^verbatim>\<open>State\<close>, and every other variable as they
  were.
\<close>

theorem setName_sets_only_Name:
  "\<exists>ps'. setName (Ref a) n ps = Inr ps' \<and>
     Name (ps' a) = n \<and>
     Age (ps' a) = Age (ps a) \<and>
     Address (ps' a) = Address (ps a) \<and>
     City (Address (ps' a)) = City (Address (ps a)) \<and>
     State (Address (ps' a)) = State (Address (ps a)) \<and>
     ps' = ps(a := ps' a)"
  by simp

text \<open>
  Claim C9: for every \<^verbatim>\<open>Person\<close> \<open>p\<close>, the method \<^verbatim>\<open>p.greet()\<close> and the function \<^verbatim>\<open>greet\<close>
  applied to \<^verbatim>\<open>p.Name\<close> return the same string, \<^verbatim>\<open>"Hello, "\<close> followed by \<^verbatim>\<open>p.Name\<close>.
\<close>

theorem Person_greet_eq_greet:
  "Person_greet p = greet (Name p) \<and> Person_greet p = ''Hello, '' @ Name p"
  by (simp add: Person_greet_def greet_def)

subsection \<open>Failure of the functions\<close>

lemma setName_fails_iff: "isl (setName r n ps) = (r = Nil)"
  by (cases r) simp_all

text \<open>
  Claim C6, as stated, fails: \<^verbatim>\<open>setName\<close> called on a nil receiver panics at the
  assignment of line 66.
\<close>

theorem setName_nil_panics:
  "invoke (Call_setName Nil ''Bob'') zero_memory = Inl Nil_pointer_dereference \<and>
   setName Nil ''Bob'' (\<lambda>a. zero_Person) = Inl Nil_pointer_dereference"
  by (simp add: zero_memory_def)

text \<open>
  Claim C6, amended: no function or method of the file returns an error value, and a call
  of \<^verbatim>\<open>greet\<close>, \<^verbatim>\<open>Haha\<close>, \<^verbatim>\<open>swap\<close>, \<^verbatim>\<open>Person.greet\<close>, \<^verbatim>\<open>adder\<close> or of a closure of
  \<^verbatim>\<open>adder\<close> returns normally on all arguments; a call of \<^verbatim>\<open>Person.setName\<close> returns
  normally on every receiver but nil, on which it panics.
\<close>

theorem functions_fail_only_on_nil_receiver:
  "isl (invoke c m) = (\<exists>n. c = Call_setName Nil n) \<and>
   invoke (Call_setName Nil n) m = Inl Nil_pointer_dereference"
proof -
  obtain ps h where m: "m = (ps, h)" by (cases m)
  have "isl (invoke c m) = (\<exists>n. c = Call_setName Nil n)"
  proof (cases c)
    case (Call_setName r n)
    then show ?thesis
      using setName_fails_iff [of r n ps] by (cases r) (simp_all add: m)
  qed (simp_all add: m swap_def adder_def Let_def split: prod.splits)
  moreover have "invoke (Call_setName Nil n) m = Inl Nil_pointer_dereference"
    by (simp add: m)
  ultimately show ?thesis by simp
qed

subsection \<open>The interface assignment of line 104\<close>

text \<open>
  Claim C4: neither \<^verbatim>\<open>Person\<close> nor \<^verbatim>\<open>*Person\<close> implements \<^verbatim>\<open>io.Reader\<close>, since neither
  has a method \<^verbatim>\<open>Read\<close>, so the assignment \<^verbatim>\<open>r = &p\<close> of line 104 is not valid Go and the
  file does not pass the compiler.
\<close>

theorem Person_not_io_Reader:
  "\<not> implements (Named ''Person'') io_Reader \<and>
   \<not> implements (Pointer_to ''Person'') io_Reader \<and>
   \<not> List.member (map sig_name (method_set (Named ''Person''))) ''Read'' \<and>
   \<not> List.member (map sig_name (method_set (Pointer_to ''Person''))) ''Read'' \<and>
   map sig_name (method_set (Pointer_to ''Person'')) = [''greet'', ''setName''] \<and>
   \<not> interface_assignments_valid"
  by (simp add: implements_def io_Reader_def methods_of_def declared_methods_def
      interface_assignments_valid_def main_interface_assignments_def)

subsection \<open>The runs of \<^verbatim>\<open>main\<close>\<close>

lemma main_81_104_result:
  "main_81_104 ps = Inr (main_output_81_104,
     ps(p_addr := \<lparr>Name = ''Bob'', Age = 30,
                    Address = \<lparr>City = ''Wonderland'', State = ''Fiction''\<rparr>\<rparr>))"
  by (simp add: main_81_104_def main_output_81_104_def greet_def name_def swap_def
      Person_greet_def Let_def)

lemma loop_iter:
  "i <s 10 \<Longrightarrow> fst (main_loop i (Closure a) (Closure b) h) =
     Print [V_int (cells h a + i),
            V_int (cells (h\<lparr>cells := (cells h)(a := cells h a + i)\<rparr>) b + - 2 * i)] #
     fst (main_loop (i + 1) (Closure a) (Closure b)
       (h\<lparr>cells := (cells h)(a := cells h a + i,
                              b := cells (h\<lparr>cells := (cells h)(a := cells h a + i)\<rparr>) b + - 2 * i)\<rparr>))"
  by (subst main_loop.simps) (simp add: Let_def split: prod.splits)

lemma loop_end:
  "\<not> i <s 10 \<Longrightarrow> fst (main_loop i pos neg h) = []"
  by (subst main_loop.simps) simp

lemma main_116_119_output: "fst (main_116_119 h) = main_output_116_119"
  by (simp add: main_116_119_def adder_def loop_iter loop_end main_output_116_119_def word_sless_alt)

lemma on_path_initial: "on_path initial"
  by (simp add: on_path_def in_phase_def initial_def)

lemma main_step_At_81:
  "in_phase s At_81 [] 0 0 0 \<Longrightarrow> main_step s = Some s' \<Longrightarrow> in_phase s' At_108 [] 0 0 5"
  by (auto simp: in_phase_def main_81_104_result main_output_def main_output_81_104_def)

lemma main_step_At_108:
  "in_phase s At_108 [] 0 0 5 \<Longrightarrow> main_step s = Some s' \<Longrightarrow> in_phase s' At_109 [] 1 1 5"
  by (auto simp: in_phase_def wg_Add_def sync_history_def)

lemma main_step_At_109:
  "in_phase s At_109 [] 1 1 5 \<Longrightarrow> main_step s = Some s' \<Longrightarrow> in_phase s' At_113 [At_111] 1 2 5"
  by (auto simp: in_phase_def sync_history_def)

lemma main_step_At_113_blocked:
  "in_phase s At_113 gs 1 n m \<Longrightarrow> main_step s = None"
  by (auto simp: in_phase_def)

lemma main_step_At_113:
  "in_phase s At_113 [Finished] 0 3 6 \<Longrightarrow> main_step s = Some s' \<Longrightarrow>
     in_phase s' At_116 [Finished] 0 4 6"
  by (auto simp: in_phase_def sync_history_def)

lemma main_step_At_116:
  "in_phase s At_116 [Finished] 0 4 6 \<Longrightarrow> main_step s = Some s' \<Longrightarrow>
     in_phase s' Returned [Finished] 0 4 16"
proof -
  assume ph: "in_phase s At_116 [Finished] 0 4 6" and st: "main_step s = Some s'"
  obtain es h where r: "main_116_119 (closures s) = (es, h)"
    by (cases "main_116_119 (closures s)")
  have es: "es = main_output_116_119"
    using main_116_119_output [of "closures s"] r by simp
  have "s' = s\<lparr>main_at := Returned, closures := h, out := out s @ es\<rparr>"
    using ph st r by (simp add: in_phase_def)
  then show ?thesis
    using ph es
    by (simp add: in_phase_def main_output_def main_output_81_104_def main_output_116_119_def)
qed

lemma main_step_Returned:
  "in_phase s Returned gs w n m \<Longrightarrow> main_step s = None"
  by (auto simp: in_phase_def)

lemma goroutine_step_none:
  "in_phase s pc [] w n m \<Longrightarrow> goroutine_step k s = None"
  by (auto simp: in_phase_def)

lemma goroutine_step_At_111:
  "in_phase s At_113 [At_111] 1 2 5 \<Longrightarrow> goroutine_step k s = Some s' \<Longrightarrow>
     in_phase s' At_113 [At_deferred_Done] 1 2 6"
  by (auto simp: in_phase_def main_output_def main_output_81_104_def split: if_splits)

lemma goroutine_step_deferred:
  "in_phase s At_113 [At_deferred_Done] 1 2 6 \<Longrightarrow> goroutine_step k s = Some s' \<Longrightarrow>
     in_phase s' At_113 [Finished] 0 3 6"
  by (auto simp: in_phase_def wg_Add_def sync_history_def split: if_splits)

lemma goroutine_step_Finished:
  "in_phase s pc [Finished] w n m \<Longrightarrow> goroutine_step k s = None"
  by (auto simp: in_phase_def)

lemma main_step_on_path:
  assumes "on_path s" "main_step s = Some s'"
  shows "on_path s'"
proof -
  from assms(1) consider
    (p0) "in_phase s At_81 [] 0 0 0" |
    (p1) "in_phase s At_108 [] 0 0 5" |
    (p2) "in_phase s At_109 [] 1 1 5" |
    (p3) "in_phase s At_113 [At_111] 1 2 5" |
    (p4) "in_phase s At_113 [At_deferred_Done] 1 2 6" |
    (p5) "in_phase s At_113 [Finished] 0 3 6" |
    (p6) "in_phase s At_116 [Finished] 0 4 6" |
    (p7) "in_phase s Returned [Finished] 0 4 16"
    unfolding on_path_def by blast
  then show ?thesis
  proof cases
    case p0
    then show ?thesis using main_step_At_81 assms(2) on_path_def by blast
  next
    case p1
    then show ?thesis using main_step_At_108 assms(2) on_path_def by blast
  next
    case p2
    then show ?thesis using main_step_At_109 assms(2) on_path_def by blast
  next
    case p3
    then show ?thesis using main_step_At_113_blocked assms(2) by fastforce
  next
    case p4
    then show ?thesis using main_step_At_113_blocked assms(2) by fastforce
  next
    case p5
    then show ?thesis using main_step_At_113 assms(2) on_path_def by blast
  next
    case p6
    then show ?thesis using main_step_At_116 assms(2) on_path_def by blast
  next
    case p7
    then show ?thesis using main_step_Returned assms(2) by fastforce
  qed
qed

lemma goroutine_step_on_path:
  assumes "on_path s" "goroutine_step k s = Some s'"
  shows "on_path s'"
proof -
  from assms(1) consider
    (p0) "in_phase s At_81 [] 0 0 0" |
    (p1) "in_phase s At_108 [] 0 0 5" |
    (p2) "in_phase s At_109 [] 1 1 5" |
    (p3) "in_phase s At_113 [At_111] 1 2 5" |
    (p4) "in_phase s At_113 [At_deferred_Done] 1 2 6" |
    (p5) "in_phase s At_113 [Finished] 0 3 6" |
    (p6) "in_phase s At_116 [Finished] 0 4 6" |
    (p7) "in_phase s Returned [Finished] 0 4 16"
    unfolding on_path_def by blast
  then show ?thesis
  proof cases
    case p0
    then show ?thesis using goroutine_step_none assms(2) by fastforce
  next
    case p1
    then show ?thesis using goroutine_step_none assms(2) by fastforce
  next
    case p2
    then show ?thesis using goroutine_step_none assms(2) by fastforce
  next
    case p3
    then show ?thesis using goroutine_step_At_111 assms(2) on_path_def by blast
  next
    case p4
    then show ?thesis using goroutine_step_deferred assms(2) on_path_def by blast
  next
    case p5
    then show ?thesis using goroutine_step_Finished assms(2) by fastforce
  next
    case p6
    then show ?thesis using goroutine_step_Finished assms(2) by fastforce
  next
    case p7
    then show ?thesis using goroutine_step_Finished assms(2) by fastforce
  qed
qed

lemma step_on_path: "on_path s \<Longrightarrow> step t s = Some s' \<Longrightarrow> on_path s'"
  by (cases t) (auto simp del: main_step.simps goroutine_step.simps
      intro: main_step_on_path goroutine_step_on_path split: if_splits)

lemma exec_on_path: "on_path s \<Longrightarrow> on_path (exec ts s)"
proof (induction ts arbitrary: s)
  case Nil
  then show ?case by simp
next
  case (Cons t ts)
  show ?case
  proof (cases "step t s")
    case None
    then show ?thesis using Cons by (simp del: step.simps)
  next
    case (Some s')
    then have "on_path s'" using Cons.prems step_on_path by blast
    then show ?thesis using Some Cons.IH by (simp del: step.simps)
  qed
qed

lemma main_116_119_case:
  "(case main_116_119 h of (es, h') \<Rightarrow> f es h') = f main_output_116_119 (snd (main_116_119 h))"
  using main_116_119_output [of h] by (cases "main_116_119 h") simp

lemma finish_from_At_81:
  "in_phase s At_81 [] 0 0 0 \<Longrightarrow> in_phase (exec a_schedule s) Returned [Finished] 0 4 16"
  by (simp add: a_schedule_def in_phase_def main_81_104_result main_116_119_case wg_Add_def
      sync_history_def main_output_def main_output_81_104_def main_output_116_119_def)

lemma finish_from_At_108:
  "in_phase s At_108 [] 0 0 5 \<Longrightarrow> in_phase (exec a_schedule s) Returned [Finished] 0 4 16"
  by (simp add: a_schedule_def in_phase_def main_116_119_case wg_Add_def
      sync_history_def main_output_def main_output_81_104_def main_output_116_119_def)

lemma finish_from_At_109:
  "in_phase s At_109 [] 1 1 5 \<Longrightarrow> in_phase (exec a_schedule s) Returned [Finished] 0 4 16"
  by (simp add: a_schedule_def in_phase_def main_116_119_case wg_Add_def
      sync_history_def main_output_def main_output_81_104_def main_output_116_119_def)

lemma finish_from_At_111:
  "in_phase s At_113 [At_111] 1 2 5 \<Longrightarrow> in_phase (exec a_schedule s) Returned [Finished] 0 4 16"
  by (simp add: a_schedule_def in_phase_def main_116_119_case wg_Add_def
      sync_history_def main_output_def main_output_81_104_def main_output_116_119_def)

lemma finish_from_deferred:
  "in_phase s At_113 [At_deferred_Done] 1 2 6 \<Longrightarrow>
     in_phase (exec a_schedule s) Returned [Finished] 0 4 16"
  by (simp add: a_schedule_def in_phase_def main_116_119_case wg_Add_def
      sync_history_def main_output_def main_output_81_104_def main_output_116_119_def)

lemma finish_from_At_113:
  "in_phase s At_113 [Finished] 0 3 6 \<Longrightarrow> in_phase (exec a_schedule s) Returned [Finished] 0 4 16"
  by (simp add: a_schedule_def in_phase_def main_116_119_case wg_Add_def
      sync_history_def main_output_def main_output_81_104_def main_output_116_119_def)

lemma finish_from_At_116:
  "in_phase s At_116 [Finished] 0 4 6 \<Longrightarrow> in_phase (exec a_schedule s) Returned [Finished] 0 4 16"
  by (simp add: a_schedule_def in_phase_def main_116_119_case wg_Add_def
      sync_history_def main_output_def main_output_81_104_def main_output_116_119_def)

lemma finish_from_Returned:
  "in_phase s Returned [Finished] 0 4 16 \<Longrightarrow> in_phase (exec a_schedule s) Returned [Finished] 0 4 16"
  by (simp add: a_schedule_def in_phase_def)

lemma finish_on_path:
  "on_path s \<Longrightarrow> in_phase (exec a_schedule s) Returned [Finished] 0 4 16"
  unfolding on_path_def
  using finish_from_At_81 finish_from_At_108 finish_from_At_109 finish_from_At_111
    finish_from_deferred finish_from_At_113 finish_from_At_116 finish_from_Returned
  by blast

lemma run_on_path: "on_path (run sched)"
  by (simp add: run_def exec_on_path on_path_initial)

lemma on_path_facts:
  assumes "on_path s"
  shows "length (goroutines s) \<le> 1" "prefix (sync s) sync_history" "panicked s = None"
    "main_at s = At_116 \<or> main_at s = Returned \<longrightarrow>
       sync s = sync_history \<and> goroutines s = [Finished] \<and> wg s = 0"
    "main_at s = At_113 \<and> \<not> List.member (sync s) Ev_Done \<longrightarrow> step Main_flow s = None"
    "only_prints (out s)" "prefix (out s) main_output"
  using assms unfolding on_path_def in_phase_def
  by (auto simp: sync_history_def main_output_def main_output_81_104_def
      main_output_116_119_def take_is_prefix)

text \<open>
  Claim C3: in every interleaving of the flows, \<^verbatim>\<open>main\<close> launches at most one goroutine
  and, once it is past line 113, has launched exactly one, which has finished; the
  history is a prefix of \<^verbatim>\<open>Add(1)\<close>, \<^verbatim>\<open>go\<close>, \<^verbatim>\<open>Done\<close>, return of \<^verbatim>\<open>Wait\<close>, so that the counter
  is incremented by one before the launch, the goroutine decrements it once, and
  \<^verbatim>\<open>Wait\<close> returns only after that; as long as the decrement has not occurred, \<^verbatim>\<open>main\<close>
  cannot move from line 113; nothing panics; and from every state reached the program
  can run to the end of \<^verbatim>\<open>main\<close>.
\<close>

theorem one_goroutine_waited_for:
  "length (goroutines (run sched)) \<le> 1 \<and>
   prefix (sync (run sched)) [Ev_Add 1, Ev_go, Ev_Done, Ev_Wait_returned] \<and>
   panicked (run sched) = None \<and>
   (main_at (run sched) = At_116 \<or> main_at (run sched) = Returned \<longrightarrow>
      sync (run sched) = [Ev_Add 1, Ev_go, Ev_Done, Ev_Wait_returned] \<and>
      goroutines (run sched) = [Finished] \<and> wg (run sched) = 0) \<and>
   (main_at (run sched) = At_113 \<and> \<not> List.member (sync (run sched)) Ev_Done \<longrightarrow>
      step Main_flow (run sched) = None) \<and>
   main_at (exec a_schedule (run sched)) = Returned \<and>
   sync (exec a_schedule (run sched)) = [Ev_Add 1, Ev_go, Ev_Done, Ev_Wait_returned] \<and>
   goroutines (exec a_schedule (run sched)) = [Finished]"
proof -
  have p: "on_path (run sched)" by (rule run_on_path)
  have f: "in_phase (exec a_schedule (run sched)) Returned [Finished] 0 4 16"
    using p by (rule finish_on_path)
  have h: "sync_history = [Ev_Add 1, Ev_go, Ev_Done, Ev_Wait_returned]"
    by (simp add: sync_history_def)
  have "main_at (exec a_schedule (run sched)) = Returned \<and>
        sync (exec a_schedule (run sched)) = sync_history \<and>
        goroutines (exec a_schedule (run sched)) = [Finished]"
    using f by (simp add: in_phase_def sync_history_def)
  then show ?thesis
    using on_path_facts(1-5) [OF p] unfolding h by blast
qed

theorem one_goroutine_waited_for_witness:
  "main_at (run a_schedule) = Returned \<and>
   sync (run a_schedule) = [Ev_Add 1, Ev_go, Ev_Done, Ev_Wait_returned] \<and>
   goroutines (run a_schedule) = [Finished] \<and> wg (run a_schedule) = 0 \<and>
   main_at (run [Main_flow, Main_flow, Main_flow]) = At_113 \<and>
   sync (run [Main_flow, Main_flow, Main_flow]) = [Ev_Add 1, Ev_go] \<and>
   step Main_flow (run [Main_flow, Main_flow, Main_flow]) = None"
proof -
  have a: "main_at (run a_schedule) = Returned"
    by (simp add: run_def a_schedule_def initial_def main_81_104_result main_116_119_case
        wg_Add_def)
  have b: "main_at (run [Main_flow, Main_flow, Main_flow]) = At_113 \<and>
           sync (run [Main_flow, Main_flow, Main_flow]) = [Ev_Add 1, Ev_go]"
    by (simp add: run_def initial_def main_81_104_result wg_Add_def)
  then have c: "\<not> List.member (sync (run [Main_flow, Main_flow, Main_flow])) Ev_Done"
    by simp
  show ?thesis
    using one_goroutine_waited_for [of a_schedule]
      one_goroutine_waited_for [of "[Main_flow, Main_flow, Main_flow]"] a b c
    by (simp del: step.simps)
qed

text \<open>
  Claim C5: in every interleaving, every effect of \<^verbatim>\<open>main\<close> on the outside is a print: no
  file, network or persisted-state effect occurs. The effects are a prefix of the sixteen
  prints of a complete run, and every run that is continued to the end of \<^verbatim>\<open>main\<close> has
  made exactly these.
\<close>

theorem main_effects_are_prints:
  "only_prints (out (run sched)) \<and>
   prefix (out (run sched)) main_output \<and>
   out (exec a_schedule (run sched)) = main_output \<and>
   only_prints main_output \<and> length main_output = 16"
proof -
  have p: "on_path (run sched)" by (rule run_on_path)
  have f: "in_phase (exec a_schedule (run sched)) Returned [Finished] 0 4 16"
    using p by (rule finish_on_path)
  have l: "length main_output = 16"
    by (simp add: main_output_def main_output_81_104_def main_output_116_119_def)
  have "out (exec a_schedule (run sched)) = main_output"
    using f l by (simp add: in_phase_def)
  moreover have "only_prints main_output"
    by (simp add: main_output_def main_output_81_104_def main_output_116_119_def)
  ultimately show ?thesis
    using on_path_facts(6,7) [OF p] l by simp
qed

end
